theory Spec2Isabelle
  imports Complex_Main
begin

section \<open>Arrays, exceptions and keyword arguments\<close>

text \<open>
  The Python exceptions that \<open>squidpy/image/segment.py\<close> and \<open>squidpy/pl/_utils.py\<close>
  raise themselves (\<open>ValueError\<close>, the \<open>AssertionError\<close> of an \<open>assert\<close>), the ones
  that indexing raises (\<open>IndexError\<close>, \<open>KeyError\<close>), the \<open>AttributeError\<close> of a
  lookup of a name that a module does not have, and \<open>OtherError\<close> for any other exception
  class coming out of a library call.
\<close>

datatype exn =
    ValueError string
  | AssertionError string
  | IndexError string
  | KeyError string
  | AttributeError string
  | OtherError string

text \<open>
  A numpy array of rank two (rows of pixels) or of rank three (planes of rows; the
  leading axis is the \<open>channels\<close> or \<open>mask\<close> axis). The elements are written as
  integers. An array of labels has a signed integer type of \<open>w\<close> bits (\<open>int64\<close>, numpy's
  default, or \<open>int32\<close>, the type of the masks of \<open>skimage\<close>'s watershed): it holds the
  integers from \<open>- 2 ^ (w - 1)\<close> to \<open>2 ^ (w - 1) - 1\<close>, and numpy's arithmetic on it wraps
  around in two's complement without raising; \<open>wrap w\<close> takes the exact result of an
  operation to the value that the array holds.
\<close>

datatype 'a nd = A2 "'a list list" | A3 "'a list list list"

type_synonym ndarray = "int nd"

type_synonym mask = "int list list"

definition wrap :: "nat \<Rightarrow> int \<Rightarrow> int" where
  "wrap w v = (v + 2 ^ (w - 1)) mod 2 ^ w - 2 ^ (w - 1)"

text \<open>
  Keyword arguments: a dict from names to numeric values; Python's \<open>True\<close> and
  \<open>False\<close> are the integers 1 and 0.
\<close>

type_synonym kwargs = "string \<rightharpoonup> rat"

section \<open>The relabelling loop of \<open>segment\<close> (segment.py, lines 232 to 237)\<close>

text \<open>
  \<open>crop_new[crop_new > 0] = crop_new[crop_new > 0] + counter\<close>: every positive entry
  gets the counter added, in the integer type of the array (of \<open>w\<close> bits), the others stay.
\<close>

definition add_counter :: "nat \<Rightarrow> int \<Rightarrow> mask \<Rightarrow> mask" where
  "add_counter w counter x = map (map (\<lambda>v. if v > 0 then wrap w (v + counter) else v)) x"

text \<open>\<open>np.max\<close> of a rank-two array; numpy raises \<open>ValueError\<close> on an array without elements.\<close>

definition np_max :: "mask \<Rightarrow> exn + int" where
  "np_max x = (case concat x of
      [] \<Rightarrow> Inl (ValueError ''zero-size array to reduction operation maximum which has no identity'')
    | v # vs \<Rightarrow> Inr (fold max vs v))"

text \<open>
  The loop \<open>for i, x in enumerate(crops)\<close>. The statement \<open>crop_new = x\<close> binds a second
  name to the same array object, and the masked assignment updates that object in place, so
  \<open>np.max(x)\<close> on the next line reads the array after the counter was added.
  \<open>crop_new[np.newaxis, :, :]\<close> puts the mask under a leading axis of length one.
  From the first \<open>np.max\<close> on the counter is a numpy scalar of the integer type of the
  arrays, and \<open>counter += np.max(x)\<close> wraps around as the addition on the array does (numpy
  warns and goes on). Where numpy keeps the counter in a wider type than the arrays, the
  labels it stores in the arrays are the same, since they are cut to the \<open>w\<close> bits of the
  array. The function returns the relabelled crops and the final value of the counter.
\<close>

fun relabel :: "nat \<Rightarrow> int \<Rightarrow> mask list \<Rightarrow> exn + (int list list list list \<times> int)" where
  "relabel w counter [] = Inr ([], counter)"
| "relabel w counter (x # crops) =
     (let crop_new = add_counter w counter x in
      case np_max crop_new of
        Inl e \<Rightarrow> Inl e
      | Inr m \<Rightarrow>
          (case relabel w (wrap w (counter + m)) crops of
             Inl e \<Rightarrow> Inl e
           | Inr (rest, c) \<Rightarrow> Inr ([crop_new] # rest, c)))"

section \<open>Segmentation models (segment.py, lines 32 to 170)\<close>

text \<open>
  The \<open>model\<close> argument of the model classes: \<open>None\<close>, the name of a method, a
  tensorflow keras model (an object that can be called on an array and keyword arguments),
  or an object of any other class.
\<close>

datatype model_instance =
    NoInstance
  | Name string
  | KerasModel "ndarray \<Rightarrow> kwargs \<Rightarrow> exn + mask"
  | OtherObject

text \<open>
  The calls into \<open>skimage\<close> and \<open>scipy\<close>, which are not code of this repository:
  the three blob detectors, and lines 137 to 140 of the watershed model (distance transform,
  local maxima, connected components, flooding), a function of the array and of the
  thresholded array. \<open>label_bits\<close> is the number of bits of the signed integer type of the
  masks that these calls return.
\<close>

record library =
  blob_log :: "ndarray \<Rightarrow> kwargs \<Rightarrow> exn + mask"
  blob_dog :: "ndarray \<Rightarrow> kwargs \<Rightarrow> exn + mask"
  blob_doh :: "ndarray \<Rightarrow> kwargs \<Rightarrow> exn + mask"
  watershed :: "ndarray \<Rightarrow> bool nd \<Rightarrow> exn + mask"
  label_bits :: nat

datatype SegmentationModel =
    SegmentationModelBlob model_instance
  | SegmentationModelWatershed model_instance
  | SegmentationModelPretrainedTensorflow "ndarray \<Rightarrow> kwargs \<Rightarrow> exn + mask"

text \<open>
  The constructors. \<open>SegmentationModel.__init__\<close> stores the handle. The constructor of
  the tensorflow class (lines 147 to 151) first evaluates the condition of its \<open>assert\<close>,
  \<open>isinstance(model, tf.keras.model.Model)\<close>, and with it the name
  \<open>tf.keras.model\<close>. The module \<open>tf.keras\<close> has the class \<open>Model\<close> and the submodule
  \<open>models\<close>, and no attribute \<open>model\<close>: the lookup raises \<open>AttributeError\<close> before
  \<open>isinstance\<close> is called, whatever the handle is, and line 151 is not reached
  (\<open>import tensorflow\<close> is taken to succeed).
\<close>

definition new_SegmentationModelBlob :: "model_instance \<Rightarrow> exn + SegmentationModel" where
  "new_SegmentationModelBlob model = Inr (SegmentationModelBlob model)"

definition new_SegmentationModelWatershed :: "model_instance \<Rightarrow> exn + SegmentationModel" where
  "new_SegmentationModelWatershed model = Inr (SegmentationModelWatershed model)"

definition new_SegmentationModelPretrainedTensorflow ::
  "model_instance \<Rightarrow> exn + SegmentationModel" where
  "new_SegmentationModelPretrainedTensorflow model =
     Inl (AttributeError ''module tensorflow.keras has no attribute model'')"

definition map_nd :: "('a \<Rightarrow> 'b) \<Rightarrow> 'a nd \<Rightarrow> 'b nd" where
  "map_nd f a = (case a of
      A2 rows \<Rightarrow> A2 (map (map f) rows)
    | A3 planes \<Rightarrow> A3 (map (map (map f)) planes))"

text \<open>
  A keyword parameter with a default value takes its entry out of the keyword dict; the
  remaining entries are the \<open>**kwargs\<close> of the method.
\<close>

definition kw_default :: "kwargs \<Rightarrow> string \<Rightarrow> rat \<Rightarrow> rat" where
  "kw_default kw k d = (case kw k of None \<Rightarrow> d | Some v \<Rightarrow> v)"

definition blob_segment :: "library \<Rightarrow> model_instance \<Rightarrow> ndarray \<Rightarrow> kwargs \<Rightarrow> exn + mask" where
  "blob_segment lib model arr kw =
     (let invert = kw_default kw ''invert'' 1;
          kw' = kw(''invert'' := None);
          arr' = (if invert \<noteq> 0 then map_nd (\<lambda>v. 0 - v) arr else arr)
      in if model = Name ''log'' then blob_log lib arr' kw'
         else if model = Name ''dog'' then blob_dog lib arr' kw'
         else if model = Name ''doh'' then blob_doh lib arr' kw'
         else Inl (ValueError (''did not recognize self.model '' @
                 (case model of Name s \<Rightarrow> s | NoInstance \<Rightarrow> ''None'' | _ \<Rightarrow> ''<object>''))))"

definition watershed_segment :: "library \<Rightarrow> ndarray \<Rightarrow> kwargs \<Rightarrow> exn + mask" where
  "watershed_segment lib arr kw =
     (let thresh = kw_default kw ''thresh'' (1 / 2);
          geq = kw_default kw ''geq'' 1;
          mask = (if geq \<noteq> 0 then map_nd (\<lambda>v. of_int v \<ge> thresh) arr
                  else map_nd (\<lambda>v. of_int v < thresh) arr)
      in watershed lib arr mask)"

text \<open>\<open>SegmentationModel.segment\<close>, which calls the \<open>_segment\<close> of the object's class.\<close>

fun model_segment :: "library \<Rightarrow> SegmentationModel \<Rightarrow> ndarray \<Rightarrow> kwargs \<Rightarrow> exn + mask" where
  "model_segment lib (SegmentationModelBlob model) arr kw = blob_segment lib model arr kw"
| "model_segment lib (SegmentationModelWatershed model) arr kw = watershed_segment lib arr kw"
| "model_segment lib (SegmentationModelPretrainedTensorflow f) arr kw = f arr kw"

section \<open>The image container and the helpers of \<open>segment\<close>\<close>

text \<open>
  Modelled from the spec: the class \<open>ImageContainer\<close> of \<open>squidpy/image/object.py\<close>,
  which is not among the sources. The spec (section 3) has the container track named images
  and label maps by string key; \<open>shape\<close> is the height and width of the canvas.
\<close>

record ImageContainer =
  data :: "string \<rightharpoonup> ndarray"
  shape :: "nat \<times> nat"

text \<open>
  Modelled from the spec: \<open>ImageContainer.add_img\<close>, which is not among the sources.
  The spec (section 4.2, step 6) has it store the array in the container under the key.
  \<open>channel_id\<close> is the name of the leading axis of the array; the arrays here carry no
  names of axes, so it does not show in the result.
\<close>

definition add_img :: "ImageContainer \<Rightarrow> ndarray \<Rightarrow> string \<Rightarrow> string \<Rightarrow> ImageContainer" where
  "add_img img a img_id channel_id = img\<lparr>data := (data img)(img_id \<mapsto> a)\<rparr>"

text \<open>
  Modelled from the spec: \<open>uncrop_img\<close> of \<open>squidpy/image/crop.py\<close>, which is not among
  the sources. The spec (section 4.2, step 5) has it place each tile into a blank canvas of
  the size of the whole image at the tile's recorded offset, tiles not overlapping; the
  result is an image (sections 3 and 6), an array with the axes channel, y, x. Each tile
  arrives with its leading axis, named by \<open>channel_id\<close> (line 237 gives it the axis
  \<open>mask\<close> of length one), and the canvas keeps that axis: it has the planes of the first
  tile, none when there is no tile. A tile pixel that would fall outside of the canvas is
  dropped.
\<close>

definition place :: "mask \<Rightarrow> int \<Rightarrow> int \<Rightarrow> mask \<Rightarrow> mask" where
  "place canvas x0 y0 tile =
     map (\<lambda>(r, row).
        map (\<lambda>(c, v).
           let rr = int r - y0; cc = int c - x0
           in if 0 \<le> rr \<and> rr < int (length tile) \<and> 0 \<le> cc \<and> cc < int (length (tile ! nat rr))
              then tile ! nat rr ! nat cc else v)
          (enumerate 0 row))
       (enumerate 0 canvas)"

fun place_all :: "mask \<Rightarrow> mask list \<Rightarrow> int list \<Rightarrow> int list \<Rightarrow> mask" where
  "place_all canvas (c # crops) (x0 # x) (y0 # y) = place_all (place canvas x0 y0 c) crops x y"
| "place_all canvas _ _ _ = canvas"

definition uncrop_img ::
  "int list list list list \<Rightarrow> int list \<Rightarrow> int list \<Rightarrow> nat \<times> nat \<Rightarrow> string \<Rightarrow> ndarray" where
  "uncrop_img crops x y sh channel_id =
     A3 (map (\<lambda>p. place_all (replicate (fst sh) (replicate (snd sh) 0))
                    (map (\<lambda>c. if p < length c then c ! p else []) crops) x y)
           [0..<(case crops of [] \<Rightarrow> 0 | c # _ \<Rightarrow> length c)])"

text \<open>
  The type of \<open>ImageContainer.crop_equally\<close>, which is not among the sources and is a
  parameter of \<open>segment\<close>: from the container, \<open>xs\<close>, \<open>ys\<close> and the key of the image it
  gives the tiles (arrays with axes channels, y, x) and the x and y offsets of the tiles.
\<close>

type_synonym crop_equally =
  "ImageContainer \<Rightarrow> int option \<Rightarrow> int option \<Rightarrow> string
     \<Rightarrow> exn + (int list list list list \<times> int list \<times> int list)"

section \<open>\<open>segment\<close> (segment.py, lines 173 to 240)\<close>

text \<open>
  The value of \<open>channel_slice\<close>: an integer, or \<open>slice(0, n)\<close>.
\<close>

datatype channel_slice = Index int | Slice nat nat

text \<open>
  \<open>channel_idx if isinstance(channel_idx, int) else slice(0, crops[0].channels.shape[0])\<close>;
  \<open>crops[0]\<close> is evaluated in the second branch only and raises on an empty list.
\<close>

definition channel_slice_of ::
  "int option \<Rightarrow> int list list list list \<Rightarrow> exn + channel_slice" where
  "channel_slice_of channel_idx crops =
     (case channel_idx of
        Some k \<Rightarrow> Inr (Index k)
      | None \<Rightarrow>
          (case crops of
             [] \<Rightarrow> Inl (IndexError ''list index out of range'')
           | c # _ \<Rightarrow> Inr (Slice 0 (length c))))"

text \<open>
  \<open>x[{"channels": channel_slice}].values\<close>: an integer index selects one plane (negative
  indices count from the end, an index out of range raises), a slice keeps the planes in
  its range.
\<close>

definition isel_channels :: "int list list list \<Rightarrow> channel_slice \<Rightarrow> exn + ndarray" where
  "isel_channels x s =
     (case s of
        Index k \<Rightarrow>
          (let n = int (length x); j = (if k < 0 then n + k else k)
           in if 0 \<le> j \<and> j < n then Inr (A2 (x ! nat j))
              else Inl (IndexError ''index out of bounds for axis channels''))
      | Slice a b \<Rightarrow> Inr (A3 (drop a (take b x))))"

text \<open>
  The list comprehension of line 228: for each tile in order, select the channels, then call
  the model; the first exception ends the comprehension.
\<close>

fun segment_tiles ::
  "(ndarray \<Rightarrow> exn + mask) \<Rightarrow> channel_slice \<Rightarrow> int list list list list \<Rightarrow> exn + mask list" where
  "segment_tiles f s [] = Inr []"
| "segment_tiles f s (x # crops) =
     (case isel_channels x s of
        Inl e \<Rightarrow> Inl e
      | Inr arr \<Rightarrow>
          (case f arr of
             Inl e \<Rightarrow> Inl e
           | Inr y \<Rightarrow>
               (case segment_tiles f s crops of
                  Inl e \<Rightarrow> Inl e
                | Inr ys \<Rightarrow> Inr (y # ys))))"

text \<open>
  Lines 217 to 224: the model class is chosen by the name of the group. On the branch of
  \<open>tensorflow\<close> the constructor raises, so no model comes out of it.
\<close>

definition select_model :: "string \<Rightarrow> model_instance \<Rightarrow> exn + SegmentationModel" where
  "select_model model_group model_instance =
     (if model_group = ''skimage_blob'' then new_SegmentationModelBlob model_instance
      else if model_group = ''watershed'' then new_SegmentationModelWatershed model_instance
      else if model_group = ''tensorflow'' then
        new_SegmentationModelPretrainedTensorflow model_instance
      else Inl (ValueError (''did not recognize model instance '' @ model_group)))"

text \<open>\<open>str.lower\<close> on the letters A to Z.\<close>

definition lower_char :: "char \<Rightarrow> char" where
  "lower_char c =
     (let n = (of_char c :: nat) in if 65 \<le> n \<and> n \<le> 90 then char_of (n + 32) else c)"

definition lower :: "string \<Rightarrow> string" where
  "lower s = map lower_char s"

text \<open>
  Lines 232 to 240 of \<open>segment\<close>: the masks of the tiles are relabelled, put together and
  stored; \<open>channel_id\<close> is \<open>mask\<close> (line 216).
\<close>

definition segment_merge ::
  "nat \<Rightarrow> ImageContainer \<Rightarrow> string \<Rightarrow> string option \<Rightarrow> int list \<Rightarrow> int list \<Rightarrow> mask list
     \<Rightarrow> (exn + unit) \<times> ImageContainer" where
  "segment_merge w img model_group key_added xcoord ycoord crops =
     (case relabel w 0 crops of
        Inl e \<Rightarrow> (Inl e, img)
      | Inr (crops', counter) \<Rightarrow>
          (let img_segmented = uncrop_img crops' xcoord ycoord (shape img) ''mask'';
               img_id = (case key_added of
                           None \<Rightarrow> ''segmented_'' @ lower model_group
                         | Some k \<Rightarrow> k)
           in (Inr (), add_img img img_segmented img_id ''mask'')))"

text \<open>
  \<open>segment\<close> returns nothing and changes the container: the definition gives the
  exception, if one is raised, and the container as the call leaves it.
\<close>

definition segment ::
  "crop_equally \<Rightarrow> library \<Rightarrow> ImageContainer \<Rightarrow> string \<Rightarrow> string \<Rightarrow> model_instance \<Rightarrow> kwargs
     \<Rightarrow> int option \<Rightarrow> int option \<Rightarrow> int option \<Rightarrow> string option
     \<Rightarrow> (exn + unit) \<times> ImageContainer" where
  "segment crop_eq lib img img_id model_group model_instance model_kwargs channel_idx xs ys
      key_added =
     (case select_model model_group model_instance of
        Inl e \<Rightarrow> (Inl e, img)
      | Inr segmentation_model \<Rightarrow>
     (case crop_eq img xs ys img_id of
        Inl e \<Rightarrow> (Inl e, img)
      | Inr (crops, xcoord, ycoord) \<Rightarrow>
     (case channel_slice_of channel_idx crops of
        Inl e \<Rightarrow> (Inl e, img)
      | Inr channel_slice \<Rightarrow>
     (case segment_tiles (\<lambda>arr. model_segment lib segmentation_model arr model_kwargs)
             channel_slice crops of
        Inl e \<Rightarrow> (Inl e, img)
      | Inr crops' \<Rightarrow>
          segment_merge (label_bits lib) img model_group key_added xcoord ycoord crops'))))"

section \<open>\<open>segment_crops\<close> (segment.py, lines 243 to 277)\<close>

text \<open>The elements of an array in row-major order.\<close>

definition nd_flat :: "'a nd \<Rightarrow> 'a list" where
  "nd_flat a = (case a of A2 rows \<Rightarrow> concat rows | A3 planes \<Rightarrow> concat (concat planes))"

text \<open>
  \<open>np.sort(list(set(np.unique(a)) - {0}))\<close>: the distinct values of the array other than
  zero, ascending.
\<close>

definition label_values :: "ndarray \<Rightarrow> int list" where
  "label_values a = sort (remdups (filter (\<lambda>v. v \<noteq> 0) (nd_flat a)))"

text \<open>
  \<open>np.where(a == i)\<close>: for every element equal to \<open>i\<close>, in row-major order, its index
  along each axis. The code reads the components 0 and 1 of the result, the indices along
  the first and the second axis: for a rank-two label map these are the row and the column,
  for a rank-three one (the label maps that \<open>segment\<close> stores have the leading axis
  \<open>mask\<close>) the plane and the row.
\<close>

definition indices2 :: "'a list list \<Rightarrow> (nat \<times> nat \<times> 'a) list" where
  "indices2 rows =
     concat (map (\<lambda>(r, row). map (\<lambda>(c, v). (r, c, v)) (enumerate 0 row)) (enumerate 0 rows))"

definition np_where_eq :: "ndarray \<Rightarrow> int \<Rightarrow> nat list \<times> nat list" where
  "np_where_eq a i =
     (case a of
        A2 rows \<Rightarrow>
          (let hits = filter (\<lambda>(r, c, v). v = i) (indices2 rows)
           in (map (\<lambda>(r, c, v). r) hits, map (\<lambda>(r, c, v). c) hits))
      | A3 planes \<Rightarrow>
          (let hits = filter (\<lambda>(p, r, row). i \<in> set row) (indices2 planes);
               reps = concat (map (\<lambda>(p, r, row). replicate (length (filter (\<lambda>v. v = i) row)) (p, r))
                                hits)
           in (map fst reps, map snd reps)))"

text \<open>
  \<open>np.mean\<close> of a list of indices, as an exact fraction (the rounding of the 64-bit
  float is left out); the mean of no values is \<open>nan\<close>, here \<open>None\<close>.
\<close>

definition np_mean :: "nat list \<Rightarrow> rat option" where
  "np_mean ns = (if ns = [] then None else Some (of_nat (sum_list ns) / of_nat (length ns)))"

text \<open>\<open>int(x)\<close> on a float: the fractional part is cut off; \<open>nan\<close> raises.\<close>

definition py_int :: "rat option \<Rightarrow> exn + int" where
  "py_int x =
     (case x of
        None \<Rightarrow> Inl (ValueError ''cannot convert float NaN to integer'')
      | Some q \<Rightarrow> Inr (if 0 \<le> q then \<lfloor>q\<rfloor> else \<lceil>q\<rceil>))"

definition segment_centres :: "ndarray \<Rightarrow> (rat option \<times> rat option) list" where
  "segment_centres a =
     map (\<lambda>i. (np_mean (fst (np_where_eq a i)), np_mean (snd (np_where_eq a i))))
       (label_values a)"

text \<open>
  The type of \<open>ImageContainer.crop\<close>, which is not among the sources and is a parameter of
  \<open>segment_crops\<close>: from the container, \<open>x\<close>, \<open>y\<close>, \<open>xs\<close>, \<open>ys\<close> and the key of the image
  it gives a crop. It reads the container (in the spec, section 3, crops do not alias back
  to the container).
\<close>

type_synonym 'c crop =
  "ImageContainer \<Rightarrow> int \<Rightarrow> int \<Rightarrow> int option \<Rightarrow> int option \<Rightarrow> string \<Rightarrow> exn + 'c"

text \<open>The list comprehension of line 277; the first exception ends it.\<close>

fun crop_centres ::
  "(int \<Rightarrow> int \<Rightarrow> exn + 'c) \<Rightarrow> (rat option \<times> rat option) list \<Rightarrow> exn + 'c list" where
  "crop_centres f [] = Inr []"
| "crop_centres f ((xi, yi) # centres) =
     (case py_int xi of
        Inl e \<Rightarrow> Inl e
      | Inr x \<Rightarrow>
     (case py_int yi of
        Inl e \<Rightarrow> Inl e
      | Inr y \<Rightarrow>
     (case f x y of
        Inl e \<Rightarrow> Inl e
      | Inr c \<Rightarrow>
     (case crop_centres f centres of
        Inl e \<Rightarrow> Inl e
      | Inr cs \<Rightarrow> Inr (c # cs)))))"

text \<open>
  \<open>segment_crops\<close> returns the list of crops; the definition gives the container after
  the call as well. \<open>img.data[segmented_img_id]\<close> raises on a key that is missing.
\<close>

definition segment_crops ::
  "'c crop \<Rightarrow> ImageContainer \<Rightarrow> string \<Rightarrow> string \<Rightarrow> int option \<Rightarrow> int option
     \<Rightarrow> (exn + 'c list) \<times> ImageContainer" where
  "segment_crops crop img img_id segmented_img_id xs ys =
     (case data img segmented_img_id of
        None \<Rightarrow> (Inl (KeyError segmented_img_id), img)
      | Some a \<Rightarrow>
          (crop_centres (\<lambda>x y. crop img x y xs ys img_id) (segment_centres a), img))"

section \<open>\<open>extract\<close> (pl/_utils.py, lines 62 to 135)\<close>

text \<open>
  An entry of \<open>adata.obsm\<close>: a pandas data frame (named columns, in order) or a numpy
  matrix (its columns). \<open>adata.obs\<close> is a data frame. A column is the list of its values.
\<close>

datatype 'v obsm_entry =
    DataFrame "(string \<times> 'v list) list"
  | Matrix "'v list list"

record 'v AnnData =
  obs :: "(string \<times> 'v list) list"
  obsm :: "string \<rightharpoonup> 'v obsm_entry"

text \<open>
  Objects live in a store and are named by their address, so that two names of one object
  can be told from a copy: the store is the list of the objects allocated so far, and a new
  object gets the next free address.
\<close>

type_synonym addr = nat

type_synonym 'v store = "'v AnnData list"

text \<open>\<open>adata.copy()\<close>: a new object with the same contents.\<close>

definition copy :: "'v store \<Rightarrow> addr \<Rightarrow> addr \<times> 'v store" where
  "copy st a = (length st, st @ [st ! a])"

text \<open>
  \<open>df[key] = column\<close>: an existing column of that name is replaced in its place, a new one
  is appended.
\<close>

definition set_column ::
  "(string \<times> 'v list) list \<Rightarrow> string \<Rightarrow> 'v list \<Rightarrow> (string \<times> 'v list) list" where
  "set_column df k col =
     (if k \<in> fst ` set df then map (\<lambda>(k', c). if k' = k then (k', col) else (k', c)) df
      else df @ [(k, col)])"

text \<open>\<open>tmp_adata.obs[obs_key] = column\<close> on the object at an address of the store.\<close>

definition set_obs :: "'v store \<Rightarrow> addr \<Rightarrow> string \<Rightarrow> 'v list \<Rightarrow> 'v store" where
  "set_obs st a k col = st[a := (st ! a)\<lparr>obs := set_column (obs (st ! a)) k col\<rparr>]"

text \<open>The decimal digits of a number, as the f-string \<open>f"{j}"\<close> prints them.\<close>

fun str_nat :: "nat \<Rightarrow> string" where
  "str_nat n =
     (if n < 10 then [char_of (48 + n)] else str_nat (n div 10) @ [char_of (48 + n mod 10)])"

declare str_nat.simps [simp del]

text \<open>Lines 97 to 116: the list of keys and the list of prefixes, one for each key.\<close>

datatype str_or_list = Str string | Strs "string list"

definition as_list :: "str_or_list \<Rightarrow> string list" where
  "as_list v = (case v of Str s \<Rightarrow> [s] | Strs ss \<Rightarrow> ss)"

definition prefixes :: "string list \<Rightarrow> str_or_list option \<Rightarrow> exn + string list" where
  "prefixes obsm_key prefix =
     (case prefix of
        Some p \<Rightarrow>
          (let ps = as_list p in
           if length obsm_key \<noteq> length ps then
             (if length ps = 1 then Inr (map (\<lambda>_. hd ps @ ''_'') obsm_key)
              else Inl (ValueError (''length of prefix '' @ str_nat (length ps) @
                          '' does not fit length of obsm_key '' @ str_nat (length obsm_key))))
           else Inr (map (\<lambda>p. p @ ''_'') ps))
      | None \<Rightarrow> Inr (map (\<lambda>_. []) obsm_key))"

text \<open>
  The inner loops of lines 124 to 127 and 130 to 133 write the columns of one entry to the
  \<open>obs\<close> of the object at \<open>tmp\<close>. (The warning that is logged when a column is overwritten
  is left out.)
\<close>

fun write_frame :: "'v store \<Rightarrow> addr \<Rightarrow> string \<Rightarrow> (string \<times> 'v list) list \<Rightarrow> 'v store" where
  "write_frame st tmp pre [] = st"
| "write_frame st tmp pre ((col, vals) # cols) =
     write_frame (set_obs st tmp (pre @ col) vals) tmp pre cols"

fun write_matrix :: "'v store \<Rightarrow> addr \<Rightarrow> string \<Rightarrow> nat \<Rightarrow> 'v list list \<Rightarrow> 'v store" where
  "write_matrix st tmp pre j [] = st"
| "write_matrix st tmp pre j (vals # cols) =
     write_matrix (set_obs st tmp (pre @ str_nat j) vals) tmp pre (Suc j) cols"

text \<open>
  The loop of line 120 over the keys and their prefixes: each entry is read from the
  \<open>obsm\<close> of the object at \<open>adata\<close>; a key that is missing there raises.
\<close>

fun move_entries ::
  "'v store \<Rightarrow> addr \<Rightarrow> addr \<Rightarrow> string list \<Rightarrow> string list \<Rightarrow> exn option \<times> 'v store" where
  "move_entries st adata tmp (cur_obsm_key # keys) (pre # pres) =
     (case obsm (st ! adata) cur_obsm_key of
        None \<Rightarrow> (Some (KeyError cur_obsm_key), st)
      | Some (DataFrame cols) \<Rightarrow> move_entries (write_frame st tmp pre cols) adata tmp keys pres
      | Some (Matrix cols) \<Rightarrow> move_entries (write_matrix st tmp pre 0 cols) adata tmp keys pres)"
| "move_entries st adata tmp _ _ = (None, st)"

text \<open>
  \<open>extract\<close> (here \<open>extract_adata\<close>, as \<open>extract\<close> is a command of Isabelle), on
  the store and the address of \<open>adata\<close>: the address of the object it returns, or the
  exception, and the store after the call.
\<close>

definition extract_adata ::
  "'v store \<Rightarrow> addr \<Rightarrow> str_or_list \<Rightarrow> str_or_list option \<Rightarrow> (exn + addr) \<times> 'v store" where
  "extract_adata st adata obsm_key prefix =
     (let keys = as_list obsm_key in
      case prefixes keys prefix of
        Inl e \<Rightarrow> (Inl e, st)
      | Inr pres \<Rightarrow>
          (let (tmp_adata, st1) = copy st adata in
           case move_entries st1 adata tmp_adata keys pres of
             (Some e, st2) \<Rightarrow> (Inl e, st2)
           | (None, st2) \<Rightarrow> (Inr tmp_adata, st2)))"

section \<open>Notions of the statements\<close>

text \<open>
  A mask is dense when its values other than zero are exactly \<open>1, ..., m\<close>, with \<open>m\<close> its
  maximum (spec, section 3).
\<close>

definition dense :: "mask \<Rightarrow> bool" where
  "dense x = (case np_max x of Inl _ \<Rightarrow> False | Inr m \<Rightarrow> label_values (A2 x) = [1..m])"

text \<open>The labels of a relabelled tile: its values other than zero.\<close>

definition tile_labels :: "int list list list \<Rightarrow> int set" where
  "tile_labels t = set (concat (concat t)) - {0}"

text \<open>
  Calling a function that may raise on each element of a list, in order: the first exception
  ends the calls.
\<close>

fun call_each :: "('a \<Rightarrow> exn + 'b) \<Rightarrow> 'a list \<Rightarrow> exn + 'b list" where
  "call_each f [] = Inr []"
| "call_each f (a # as) =
     (case f a of
        Inl e \<Rightarrow> Inl e
      | Inr b \<Rightarrow> (case call_each f as of Inl e \<Rightarrow> Inl e | Inr bs \<Rightarrow> Inr (b # bs)))"

subsection \<open>Concrete inputs\<close>

text \<open>
  A library whose blob detectors segment the array \<open>[[0]]\<close> and raise on every other
  array, and whose watershed raises.
\<close>

definition failing_library :: library where
  "failing_library =
     \<lparr>blob_log = (\<lambda>a k. if a = A2 [[0]] then Inr [[1]] else Inl (OtherError ''out of memory'')),
      blob_dog = (\<lambda>a k. if a = A2 [[0]] then Inr [[1]] else Inl (OtherError ''out of memory'')),
      blob_doh = (\<lambda>a k. if a = A2 [[0]] then Inr [[1]] else Inl (OtherError ''out of memory'')),
      watershed = (\<lambda>a m. Inl (OtherError ''out of memory'')),
      label_bits = 64\<rparr>"

text \<open>A container with an image of one row of three pixels, and its three tiles of one pixel.\<close>

definition one_pixel_tiles :: crop_equally where
  "one_pixel_tiles img xs ys img_id = Inr ([[[[0]]], [[[9]]], [[[0]]]], [0, 1, 2], [0, 0, 0])"

definition small_container :: ImageContainer where
  "small_container = \<lparr>data = [''image'' \<mapsto> A3 [[[0, 9, 0]]]], shape = (1, 3)\<rparr>"

text \<open>
  A library that takes the pixel values for labels: its calls return the rows of the array
  that they are given, plane after plane for an array of rank three, as masks of 32 bits.
\<close>

definition rows_of :: "ndarray \<Rightarrow> exn + mask" where
  "rows_of a = (case a of A2 rows \<Rightarrow> Inr rows | A3 planes \<Rightarrow> Inr (concat planes))"

definition label_library :: library where
  "label_library =
     \<lparr>blob_log = (\<lambda>a k. rows_of a), blob_dog = (\<lambda>a k. rows_of a), blob_doh = (\<lambda>a k. rows_of a),
      watershed = (\<lambda>a m. rows_of a), label_bits = 32\<rparr>"

text \<open>
  A container with an image of two channels, one row of two pixels, and its two tiles of
  one pixel.
\<close>

definition two_channel_container :: ImageContainer where
  "two_channel_container = \<lparr>data = [''image'' \<mapsto> A3 [[[1, 3]], [[2, 4]]]], shape = (1, 2)\<rparr>"

definition two_channel_tiles :: crop_equally where
  "two_channel_tiles img xs ys img_id = Inr ([[[[1]], [[2]]], [[[3]], [[4]]]], [0, 1], [0, 0])"

text \<open>
  A container with an image of one channel, one row of 66 pixels, and its 33 tiles of two
  pixels with the values 1 and 2, at the x offsets 0, 2, ..., 64.
\<close>

definition strip_container :: ImageContainer where
  "strip_container =
     \<lparr>data = [''image'' \<mapsto> A3 [[concat (replicate 33 [1, 2])]]], shape = (1, 66)\<rparr>"

definition strip_tiles :: crop_equally where
  "strip_tiles img xs ys img_id =
     Inr (replicate 33 [[[1, 2]]], map (\<lambda>i. 2 * int i) [0..<33], replicate 33 0)"

text \<open>An annotated data object with one \<open>obs\<close> column and a matrix of two columns in \<open>obsm\<close>.\<close>

definition small_adata :: "int AnnData" where
  "small_adata = \<lparr>obs = [(''cluster'', [1, 2])],
                   obsm = [''img_features'' \<mapsto> Matrix [[5, 6], [7, 8]]]\<rparr>"

subsection \<open>The crops of a label map, in the words of the spec\<close>

text \<open>
  Section 4.3 of the spec, for the rows of a label map: the pixels that carry a label, their
  centroid (mean row index, mean column index), and one crop for each label value other
  than zero, in ascending order, centred at the centroid made integer by \<open>rnd\<close>: the
  crop's \<open>x\<close> is the column of the centroid and its \<open>y\<close> the row (the axes of the arrays
  are \<open>y\<close> and \<open>x\<close>, in this order: segment.py, line 237). The spec rounds to the nearest
  integer (\<open>rnd = round\<close>).
\<close>

definition pixels_of :: "mask \<Rightarrow> int \<Rightarrow> (nat \<times> nat) list" where
  "pixels_of lab l =
     concat (map (\<lambda>r. map (\<lambda>c. (r, c)) (filter (\<lambda>c. lab ! r ! c = l) [0..<length (lab ! r)]))
               [0..<length lab])"

definition mean :: "nat list \<Rightarrow> rat" where
  "mean ns = of_nat (sum_list ns) / of_nat (length ns)"

definition centroid :: "mask \<Rightarrow> int \<Rightarrow> rat \<times> rat" where
  "centroid lab l = (mean (map fst (pixels_of lab l)), mean (map snd (pixels_of lab l)))"

definition crops_by_label ::
  "(rat \<Rightarrow> int) \<Rightarrow> (int \<Rightarrow> int \<Rightarrow> exn + 'c) \<Rightarrow> mask \<Rightarrow> exn + 'c list" where
  "crops_by_label rnd f lab =
     call_each (\<lambda>l. f (rnd (snd (centroid lab l))) (rnd (fst (centroid lab l))))
       (sorted_list_of_set (set (concat lab) - {0}))"

text \<open>
  A crop function that returns the centre \<open>(x, y)\<close> it is given, and a container that
  holds a label map with one label, whose four pixels have the mean row and the mean column
  3/4.
\<close>

definition centre_only :: "(int \<times> int) crop" where
  "centre_only img x y xs ys img_id = Inr (x, y)"

definition label_container :: ImageContainer where
  "label_container = \<lparr>data = [''segmented_watershed'' \<mapsto> A2 [[1, 0, 0], [1, 1, 1]]],
                       shape = (2, 3)\<rparr>"

subsection \<open>The scenario of two tiles\<close>

text \<open>
  The label masks of the two tiles of 10 by 10 pixels of the spec's scenario (section 8,
  item 5): the first with the local labels 1 and 2, the second with the local label 1; and
  the second as it is expected after relabelling. Every label is a square of three by
  three pixels, so its centroid is its middle pixel.
\<close>

definition tile1_mask :: mask where
  "tile1_mask =
    [[0, 0, 0, 0, 0, 0, 0, 0, 0, 0],
     [0, 1, 1, 1, 0, 0, 0, 0, 0, 0],
     [0, 1, 1, 1, 0, 0, 0, 0, 0, 0],
     [0, 1, 1, 1, 0, 0, 0, 0, 0, 0],
     [0, 0, 0, 0, 0, 0, 0, 0, 0, 0],
     [0, 0, 0, 0, 0, 0, 0, 0, 0, 0],
     [0, 0, 0, 0, 0, 2, 2, 2, 0, 0],
     [0, 0, 0, 0, 0, 2, 2, 2, 0, 0],
     [0, 0, 0, 0, 0, 2, 2, 2, 0, 0],
     [0, 0, 0, 0, 0, 0, 0, 0, 0, 0]]"

definition tile2_mask :: mask where
  "tile2_mask =
    [[0, 0, 0, 0, 0, 0, 0, 0, 0, 0],
     [0, 0, 0, 0, 0, 0, 0, 0, 0, 0],
     [0, 0, 0, 0, 0, 0, 0, 0, 0, 0],
     [0, 0, 0, 1, 1, 1, 0, 0, 0, 0],
     [0, 0, 0, 1, 1, 1, 0, 0, 0, 0],
     [0, 0, 0, 1, 1, 1, 0, 0, 0, 0],
     [0, 0, 0, 0, 0, 0, 0, 0, 0, 0],
     [0, 0, 0, 0, 0, 0, 0, 0, 0, 0],
     [0, 0, 0, 0, 0, 0, 0, 0, 0, 0],
     [0, 0, 0, 0, 0, 0, 0, 0, 0, 0]]"

definition tile2_relabelled :: mask where
  "tile2_relabelled =
    [[0, 0, 0, 0, 0, 0, 0, 0, 0, 0],
     [0, 0, 0, 0, 0, 0, 0, 0, 0, 0],
     [0, 0, 0, 0, 0, 0, 0, 0, 0, 0],
     [0, 0, 0, 3, 3, 3, 0, 0, 0, 0],
     [0, 0, 0, 3, 3, 3, 0, 0, 0, 0],
     [0, 0, 0, 3, 3, 3, 0, 0, 0, 0],
     [0, 0, 0, 0, 0, 0, 0, 0, 0, 0],
     [0, 0, 0, 0, 0, 0, 0, 0, 0, 0],
     [0, 0, 0, 0, 0, 0, 0, 0, 0, 0],
     [0, 0, 0, 0, 0, 0, 0, 0, 0, 0]]"

text \<open>Two arrays with as many rows put side by side, row by row.\<close>

definition side_by_side :: "mask \<Rightarrow> mask \<Rightarrow> mask" where
  "side_by_side a b = map (\<lambda>(ra, rb). ra @ rb) (zip a b)"

text \<open>
  A container with an image of one channel, 10 rows of 20 pixels, whose pixel values are
  the local labels of the two tiles; a \<open>crop_equally\<close> for it, which gives the left and
  the right half as tiles with the x offsets 0 and 10; and the container with the label map
  that the scenario expects under the key \<open>segmented_watershed\<close>, an array with the leading
  axis \<open>mask\<close>.
\<close>

definition scenario_container :: ImageContainer where
  "scenario_container =
     \<lparr>data = [''image'' \<mapsto> A3 [side_by_side tile1_mask tile2_mask]], shape = (10, 20)\<rparr>"

definition two_tiles :: crop_equally where
  "two_tiles img xs ys img_id =
     (case data img img_id of
        Some (A3 planes) \<Rightarrow>
          Inr ([map (map (take 10)) planes, map (map (drop 10)) planes], [0, 10], [0, 0])
      | _ \<Rightarrow> Inl (KeyError img_id))"

definition scenario_segmented :: ImageContainer where
  "scenario_segmented =
     add_img scenario_container (A3 [side_by_side tile1_mask tile2_relabelled])
       ''segmented_watershed'' ''mask''"

section \<open>The relabelling loop: the counter and the labels\<close>

text \<open>
  Claim C1 has the counter grow by the maximum of the tile before the counter was added.
  On three tiles with the masks \<open>[[1, 2]]\<close>, \<open>[[1]]\<close> and \<open>[[1]]\<close> the loop of the code
  gives the third tile the label 6 and ends with the counter 11: after the second tile the
  counter is 5, the 2 it had plus the maximum 3 of the second tile after the counter was
  added, where the claim has 3 and the label 4 for the third tile. This is so on arrays of
  64 bits and on arrays of 32 bits.
\<close>

theorem relabel_counter_reads_updated_tile:
  "relabel 64 0 [[[1, 2]], [[1]], [[1]]] = Inr ([[[[1, 2]]], [[[3]]], [[[6]]]], 11)
   \<and> relabel 32 0 [[[1, 2]], [[1]], [[1]]] = Inr ([[[[1, 2]]], [[[3]]], [[[6]]]], 11)"
  by code_simp

text \<open>
  Claim C2 has the labels of two different tiles disjoint after the relabelling loop when
  every mask is dense. The counter of the code more than doubles with every tile (it grows
  by the maximum of the tile after the counter was added), so on dense masks with the
  labels 1 and 2 it is \<open>2 ^ (k + 1) - 2\<close> after \<open>k\<close> tiles and leaves the integer type of
  the arrays at tile 63 (64 bits) or 31 (32 bits). On 65 tiles \<open>[[1, 2]]\<close> of 64 bits the
  tiles 64 and 65 come out as \<open>[[-2, -1]]\<close> and \<open>[[-3, -2]]\<close>: both hold the label -2.
  The same happens at the tiles 32 and 33 of 33 tiles of 32 bits, and there \<open>segment\<close>
  stores a mask in which the pixels 62 and 65, of two different tiles, carry the label -2.
\<close>

lemma segment_tiles_replicate:
  "isel_channels x s = Inr a \<Longrightarrow> f a = Inr y \<Longrightarrow>
   segment_tiles f s (replicate n x) = Inr (replicate n y)"
  by (induction n) simp_all

lemma strip_merge:
  "map_option (\<lambda>a. (nd_flat a ! 62, nd_flat a ! 63, nd_flat a ! 64, nd_flat a ! 65))
     (data (snd (segment_merge 32 strip_container ''watershed'' None
                   (map (\<lambda>i. 2 * int i) [0..<33]) (replicate 33 0) (replicate 33 [[1, 2]])))
        ''segmented_watershed'')
   = Some (-2, -1, -3, -2)"
  by code_simp

lemma strip_segment:
  "segment strip_tiles label_library strip_container ''image'' ''watershed''
      NoInstance Map.empty (Some 0) (Some 2) (Some 1) None
   = segment_merge 32 strip_container ''watershed'' None
       (map (\<lambda>i. 2 * int i) [0..<33]) (replicate 33 0) (replicate 33 [[1, 2]])"
proof -
  have t: "segment_tiles
             (\<lambda>arr. model_segment label_library (SegmentationModelWatershed NoInstance) arr
                      Map.empty)
             (Index 0) (replicate 33 [[[1, 2]]]) = Inr (replicate 33 [[1, 2]])"
    by (rule segment_tiles_replicate[where a = "A2 [[1, 2]]"])
       (simp_all add: isel_channels_def watershed_segment_def label_library_def rows_of_def
          Let_def)
  have c: "channel_slice_of (Some 0) (replicate 33 [[[1, 2]]]) = Inr (Index 0)"
    by (simp add: channel_slice_of_def)
  have lb: "label_bits label_library = 32" by (simp add: label_library_def)
  show ?thesis
    unfolding segment_def
    by (simp add: select_model_def new_SegmentationModelWatershed_def strip_tiles_def c t lb
        del: segment_tiles.simps model_segment.simps)
qed

theorem relabel_labels_collide:
  "dense [[1, 2]]
   \<and> (case relabel 64 0 (replicate 65 [[1, 2]]) of
         Inl e \<Rightarrow> False
       | Inr (out, c) \<Rightarrow>
           out ! 63 = [[[-2, -1]]] \<and> out ! 64 = [[[-3, -2]]]
           \<and> tile_labels (out ! 63) \<inter> tile_labels (out ! 64) = {-2})
   \<and> (case relabel 32 0 (replicate 33 [[1, 2]]) of
         Inl e \<Rightarrow> False
       | Inr (out, c) \<Rightarrow>
           out ! 31 = [[[-2, -1]]] \<and> out ! 32 = [[[-3, -2]]]
           \<and> tile_labels (out ! 31) \<inter> tile_labels (out ! 32) = {-2})
   \<and> map_option (\<lambda>a. (nd_flat a ! 62, nd_flat a ! 63, nd_flat a ! 64, nd_flat a ! 65))
        (data (snd (segment strip_tiles label_library strip_container ''image'' ''watershed''
                      NoInstance Map.empty (Some 0) (Some 2) (Some 1) None))
           ''segmented_watershed'')
       = Some (-2, -1, -3, -2)"
proof -
  have a: "dense [[1, 2]]" by code_simp
  have b: "case relabel 64 0 (replicate 65 [[1, 2]]) of
         Inl e \<Rightarrow> False
       | Inr (out, c) \<Rightarrow>
           out ! 63 = [[[-2, -1]]] \<and> out ! 64 = [[[-3, -2]]]
           \<and> tile_labels (out ! 63) \<inter> tile_labels (out ! 64) = {-2}"
    by code_simp
  have c: "case relabel 32 0 (replicate 33 [[1, 2]]) of
         Inl e \<Rightarrow> False
       | Inr (out, c) \<Rightarrow>
           out ! 31 = [[[-2, -1]]] \<and> out ! 32 = [[[-3, -2]]]
           \<and> tile_labels (out ! 31) \<inter> tile_labels (out ! 32) = {-2}"
    by code_simp
  from a b c strip_merge show ?thesis unfolding strip_segment by (intro conjI)
qed

section \<open>\<open>segment\<close>: exceptions, model selection and channels\<close>

lemma segment_tiles_first_error:
  "k < length crops \<Longrightarrow>
   (\<forall>j<k. \<exists>a y. isel_channels (crops ! j) s = Inr a \<and> f a = Inr y) \<Longrightarrow>
   isel_channels (crops ! k) s = Inr a \<Longrightarrow> f a = Inl e \<Longrightarrow>
   segment_tiles f s crops = Inl e"
proof (induction crops arbitrary: k)
  case Nil
  then show ?case by simp
next
  case (Cons x crops)
  show ?case
  proof (cases k)
    case 0
    with Cons.prems(3,4) show ?thesis by simp
  next
    case (Suc k')
    from Cons.prems(2) Suc obtain a0 y0 where
      h: "isel_channels x s = Inr a0" "f a0 = Inr y0" by fastforce
    have "\<forall>j<k'. \<exists>a y. isel_channels (crops ! j) s = Inr a \<and> f a = Inr y"
    proof (intro allI impI)
      fix j assume "j < k'"
      then have "Suc j < k" using Suc by simp
      from Cons.prems(2)[rule_format, OF this] show "\<exists>a y. isel_channels (crops ! j) s = Inr a \<and> f a = Inr y"
        by simp
    qed
    from Cons.IH[OF _ this] Cons.prems Suc have "segment_tiles f s crops = Inl e" by simp
    with h show ?thesis by simp
  qed
qed

text \<open>
  Claim C4: when the call of the model on a tile raises (the tiles before it having been
  segmented), \<open>segment\<close> raises that same exception and the container is as it was:
  nothing was stored in it.
\<close>

theorem segment_backend_exception:
  assumes "select_model model_group model_instance = Inr sm"
    and "crop_eq img xs ys img_id = Inr (crops, xcoord, ycoord)"
    and "channel_slice_of channel_idx crops = Inr s"
    and "k < length crops"
    and "\<forall>j<k. \<exists>a y. isel_channels (crops ! j) s = Inr a
                      \<and> model_segment lib sm a model_kwargs = Inr y"
    and "isel_channels (crops ! k) s = Inr a"
    and "model_segment lib sm a model_kwargs = Inl e"
  shows "segment crop_eq lib img img_id model_group model_instance model_kwargs channel_idx
           xs ys key_added = (Inl e, img)"
proof -
  have "segment_tiles (\<lambda>arr. model_segment lib sm arr model_kwargs) s crops = Inl e"
    using segment_tiles_first_error[where f = "\<lambda>arr. model_segment lib sm arr model_kwargs",
        OF assms(4) assms(5) assms(6) assms(7)] .
  with assms(1,2,3) show ?thesis by (simp add: segment_def)
qed

text \<open>
  The blob model \<open>log\<close> on the three tiles of one pixel: the detector segments the first
  tile and raises on the second.
\<close>

theorem segment_backend_exception_witness:
  "segment one_pixel_tiles failing_library small_container ''image'' ''skimage_blob''
      (Name ''log'') Map.empty (Some 0) (Some 1) (Some 1) None
   = (Inl (OtherError ''out of memory''), small_container)"
proof -
  have 1: "select_model ''skimage_blob'' (Name ''log'') = Inr (SegmentationModelBlob (Name ''log''))"
    by (simp add: select_model_def new_SegmentationModelBlob_def)
  have 2: "one_pixel_tiles small_container (Some 1) (Some 1) ''image''
             = Inr ([[[[0]]], [[[9]]], [[[0]]]], [0, 1, 2], [0, 0, 0])"
    by (simp add: one_pixel_tiles_def)
  have 3: "channel_slice_of (Some 0) [[[[0]]], [[[9]]], [[[0]]]] = Inr (Index 0)"
    by (simp add: channel_slice_of_def)
  have 4: "(1::nat) < length [[[[0::int]]], [[[9]]], [[[0]]]]" by simp
  have 5: "\<forall>j<1::nat. \<exists>a y. isel_channels ([[[[0]]], [[[9]]], [[[0]]]] ! j) (Index 0) = Inr a
             \<and> model_segment failing_library (SegmentationModelBlob (Name ''log'')) a
                  Map.empty = Inr y"
    by (simp add: isel_channels_def blob_segment_def kw_default_def map_nd_def
        failing_library_def)
  have 6: "isel_channels ([[[[0]]], [[[9]]], [[[0]]]] ! 1) (Index 0) = Inr (A2 [[9]])"
    by (simp add: isel_channels_def)
  have 7: "model_segment failing_library (SegmentationModelBlob (Name ''log''))
             (A2 [[9]]) Map.empty = Inl (OtherError ''out of memory'')"
    by (simp add: blob_segment_def kw_default_def map_nd_def failing_library_def)
  show ?thesis
    by (rule segment_backend_exception[where crop_eq = one_pixel_tiles and img = small_container
          and xs = "Some 1" and ys = "Some 1" and img_id = "''image''" and k = 1,
          OF 1 2 3 4 5 6 7])
qed

text \<open>
  Claim C5: for a group name other than \<open>skimage_blob\<close>, \<open>watershed\<close> and
  \<open>tensorflow\<close>, \<open>segment\<close> raises the \<open>ValueError\<close> of line 224 (the spec's
  configuration error) whatever \<open>crop_equally\<close> and the library would do, so before a tile
  is cropped or segmented, and the container is as it was.
\<close>

theorem segment_unknown_group:
  assumes "model_group \<noteq> ''skimage_blob''" and "model_group \<noteq> ''watershed''"
    and "model_group \<noteq> ''tensorflow''"
  shows "segment crop_eq lib img img_id model_group model_instance model_kwargs channel_idx
           xs ys key_added
         = (Inl (ValueError (''did not recognize model instance '' @ model_group)), img)"
  using assms by (simp add: segment_def select_model_def)

theorem segment_unknown_group_witness:
  "segment (\<lambda>img xs ys k. Inl (KeyError k))
      \<lparr>blob_log = (\<lambda>a k. Inl (OtherError [])), blob_dog = (\<lambda>a k. Inl (OtherError [])),
       blob_doh = (\<lambda>a k. Inl (OtherError [])), watershed = (\<lambda>a m. Inl (OtherError [])),
       label_bits = 64\<rparr>
      \<lparr>data = Map.empty, shape = (0, 0)\<rparr> ''image'' ''nonexistent'' NoInstance Map.empty
      None None None None
   = (Inl (ValueError ''did not recognize model instance nonexistent''),
      \<lparr>data = Map.empty, shape = (0, 0)\<rparr>)"
  using segment_unknown_group[of "''nonexistent''" "\<lambda>img xs ys k. Inl (KeyError k)"
      "\<lparr>blob_log = (\<lambda>a k. Inl (OtherError [])), blob_dog = (\<lambda>a k. Inl (OtherError [])),
       blob_doh = (\<lambda>a k. Inl (OtherError [])), watershed = (\<lambda>a m. Inl (OtherError [])),
       label_bits = 64\<rparr>"
      "\<lparr>data = Map.empty, shape = (0, 0)\<rparr>" "''image''" NoInstance Map.empty None None None None]
  by simp

text \<open>
  Claim C7 has the constructor of the tensorflow model fail on a handle of the wrong type
  and succeed otherwise, the model then returning what the handle returns. The constructor
  of the code raises \<open>AttributeError\<close> on every handle, a keras model \<open>KerasModel f\<close>
  included: no model of this class is ever constructed, and \<open>segment\<close> with the group
  \<open>tensorflow\<close> raises that exception before a tile is cropped, whatever the handle is,
  and leaves the container as it was.
\<close>

theorem pretrained_model_never_constructed:
  "new_SegmentationModelPretrainedTensorflow (KerasModel f)
     = Inl (AttributeError ''module tensorflow.keras has no attribute model'')
   \<and> new_SegmentationModelPretrainedTensorflow model
     = Inl (AttributeError ''module tensorflow.keras has no attribute model'')
   \<and> segment crop_eq lib img img_id ''tensorflow'' (KerasModel f) model_kwargs channel_idx
        xs ys key_added
     = (Inl (AttributeError ''module tensorflow.keras has no attribute model''), img)"
  by (simp add: new_SegmentationModelPretrainedTensorflow_def segment_def select_model_def)

lemma segment_tiles_call_each:
  "\<forall>x\<in>set crops. isel_channels x s = Inr (h x) \<Longrightarrow>
   segment_tiles f s crops = call_each f (map h crops)"
proof (induction crops)
  case Nil
  show ?case by simp
next
  case (Cons x crops)
  from Cons.prems have hx: "isel_channels x s = Inr (h x)"
    and rest: "\<forall>x\<in>set crops. isel_channels x s = Inr (h x)" by simp_all
  from Cons.IH[OF rest] hx show ?case by (cases "f (h x)") simp_all
qed

lemma isel_channels_Index:
  "- int (length x) \<le> k \<Longrightarrow> k < int (length x) \<Longrightarrow>
   isel_channels x (Index k) = Inr (A2 (x ! nat (if k < 0 then int (length x) + k else k)))"
  by (simp add: isel_channels_def Let_def)

lemma isel_channels_Slice_all:
  "length x = n \<Longrightarrow> isel_channels x (Slice 0 n) = Inr (A3 x)"
  by (simp add: isel_channels_def)

lemma segment_after_tiles:
  assumes "select_model model_group model_instance = Inr sm"
    and "crop_eq img xs ys img_id = Inr (crops, xcoord, ycoord)"
    and "channel_slice_of channel_idx crops = Inr s"
  shows "segment crop_eq lib img img_id model_group model_instance model_kwargs channel_idx
           xs ys key_added
         = (case segment_tiles (\<lambda>arr. model_segment lib sm arr model_kwargs) s crops of
              Inl e \<Rightarrow> (Inl e, img)
            | Inr masks \<Rightarrow>
                segment_merge (label_bits lib) img model_group key_added xcoord ycoord masks)"
  using assms by (simp add: segment_def)

text \<open>
  Claim C8: \<open>segment\<close>, once the model is chosen and the tiles are cropped, calls the
  \<open>segment\<close> method of the model on the tiles in order and merges and stores the masks it
  returns: with an integer \<open>channel_idx\<close> (in the range of the channels of every tile,
  negative indices counting from the end) the method is called on that one channel of each
  tile, a rank-two array; with \<open>channel_idx\<close> \<open>None\<close>, there being a tile and the tiles
  all having as many channels as the first, it is called on each tile with all of its
  channels.
\<close>

theorem segment_channel_selection:
  assumes "select_model model_group model_instance = Inr sm"
    and "crop_eq img xs ys img_id = Inr (crops, xcoord, ycoord)"
  shows "(channel_idx = Some k
             \<and> (\<forall>x\<in>set crops. - int (length x) \<le> k \<and> k < int (length x)) \<longrightarrow>
           segment crop_eq lib img img_id model_group model_instance model_kwargs channel_idx
             xs ys key_added
           = (case call_each (\<lambda>arr. model_segment lib sm arr model_kwargs)
                     (map (\<lambda>x. A2 (x ! nat (if k < 0 then int (length x) + k else k))) crops) of
                Inl e \<Rightarrow> (Inl e, img)
              | Inr masks \<Rightarrow>
                  segment_merge (label_bits lib) img model_group key_added xcoord ycoord masks))
       \<and> (channel_idx = None \<and> crops \<noteq> [] \<and> (\<forall>x\<in>set crops. length x = length (hd crops)) \<longrightarrow>
           segment crop_eq lib img img_id model_group model_instance model_kwargs channel_idx
             xs ys key_added
           = (case call_each (\<lambda>arr. model_segment lib sm arr model_kwargs) (map A3 crops) of
                Inl e \<Rightarrow> (Inl e, img)
              | Inr masks \<Rightarrow>
                  segment_merge (label_bits lib) img model_group key_added xcoord ycoord masks))"
proof (intro conjI impI)
  assume h: "channel_idx = Some k
             \<and> (\<forall>x\<in>set crops. - int (length x) \<le> k \<and> k < int (length x))"
  from h have ci: "channel_idx = Some k" by (rule conjunct1)
  from h have rng: "\<forall>x\<in>set crops. - int (length x) \<le> k \<and> k < int (length x)"
    by (rule conjunct2)
  from ci have s: "channel_slice_of channel_idx crops = Inr (Index k)"
    by (simp add: channel_slice_of_def)
  have sel: "\<forall>x\<in>set crops. isel_channels x (Index k)
          = Inr (A2 (x ! nat (if k < 0 then int (length x) + k else k)))"
  proof
    fix x assume "x \<in> set crops"
    with rng have "- int (length x) \<le> k" "k < int (length x)" by blast+
    then show "isel_channels x (Index k)
          = Inr (A2 (x ! nat (if k < 0 then int (length x) + k else k)))"
      by (rule isel_channels_Index)
  qed
  have T: "segment_tiles (\<lambda>arr. model_segment lib sm arr model_kwargs) (Index k) crops
          = call_each (\<lambda>arr. model_segment lib sm arr model_kwargs)
              (map (\<lambda>x. A2 (x ! nat (if k < 0 then int (length x) + k else k))) crops)"
    using sel by (rule segment_tiles_call_each)
  show "segment crop_eq lib img img_id model_group model_instance model_kwargs channel_idx
             xs ys key_added
           = (case call_each (\<lambda>arr. model_segment lib sm arr model_kwargs)
                     (map (\<lambda>x. A2 (x ! nat (if k < 0 then int (length x) + k else k))) crops) of
                Inl e \<Rightarrow> (Inl e, img)
              | Inr masks \<Rightarrow>
                  segment_merge (label_bits lib) img model_group key_added xcoord ycoord masks)"
    unfolding segment_after_tiles[where crop_eq = crop_eq and img = img and xs = xs and ys = ys
      and img_id = img_id, OF assms s] T by (rule refl)
next
  assume h: "channel_idx = None \<and> crops \<noteq> [] \<and> (\<forall>x\<in>set crops. length x = length (hd crops))"
  from h have ci: "channel_idx = None" by (rule conjunct1)
  from h have ne: "crops \<noteq> []" by (rule conjunct1[OF conjunct2])
  from h have len: "\<forall>x\<in>set crops. length x = length (hd crops)"
    by (rule conjunct2[OF conjunct2])
  from ne obtain c cs where Cons: "crops = c # cs" by (cases crops) simp_all
  then have hd: "hd crops = c" by simp
  from ci Cons have s: "channel_slice_of channel_idx crops = Inr (Slice 0 (length c))"
    by (simp add: channel_slice_of_def)
  have sel: "\<forall>x\<in>set crops. isel_channels x (Slice 0 (length c)) = Inr (A3 x)"
  proof
    fix x assume "x \<in> set crops"
    with len have "length x = length (hd crops)" by (rule bspec)
    with hd have "length x = length c" by (simp only:)
    then show "isel_channels x (Slice 0 (length c)) = Inr (A3 x)"
      by (rule isel_channels_Slice_all)
  qed
  have T: "segment_tiles (\<lambda>arr. model_segment lib sm arr model_kwargs) (Slice 0 (length c)) crops
          = call_each (\<lambda>arr. model_segment lib sm arr model_kwargs) (map A3 crops)"
    using sel by (rule segment_tiles_call_each)
  show "segment crop_eq lib img img_id model_group model_instance model_kwargs channel_idx
             xs ys key_added
           = (case call_each (\<lambda>arr. model_segment lib sm arr model_kwargs) (map A3 crops) of
                Inl e \<Rightarrow> (Inl e, img)
              | Inr masks \<Rightarrow>
                  segment_merge (label_bits lib) img model_group key_added xcoord ycoord masks)"
    unfolding segment_after_tiles[where crop_eq = crop_eq and img = img and xs = xs and ys = ys
      and img_id = img_id, OF assms s] T by (rule refl)
qed

text \<open>
  The watershed model on the two tiles of two channels, with a library that returns the
  pixel values it is given: with the channel index 1 the stored labels come from the second
  channel of each tile (2, and 4 with the counter 2 added), with no channel index from both
  channels (the mask of a tile has the rows of both, of which the first is on the canvas).
\<close>

theorem segment_channel_selection_witness:
  "segment two_channel_tiles label_library two_channel_container ''image'' ''watershed''
      NoInstance Map.empty (Some 1) (Some 1) (Some 1) None
     = (case call_each
               (\<lambda>arr. model_segment label_library (SegmentationModelWatershed NoInstance) arr
                        Map.empty)
               [A2 [[2]], A2 [[4]]] of
          Inl e \<Rightarrow> (Inl e, two_channel_container)
        | Inr masks \<Rightarrow>
            segment_merge (label_bits label_library) two_channel_container ''watershed'' None
              [0, 1] [0, 0] masks)
   \<and> segment two_channel_tiles label_library two_channel_container ''image'' ''watershed''
      NoInstance Map.empty None (Some 1) (Some 1) None
     = (case call_each
               (\<lambda>arr. model_segment label_library (SegmentationModelWatershed NoInstance) arr
                        Map.empty)
               [A3 [[[1]], [[2]]], A3 [[[3]], [[4]]]] of
          Inl e \<Rightarrow> (Inl e, two_channel_container)
        | Inr masks \<Rightarrow>
            segment_merge (label_bits label_library) two_channel_container ''watershed'' None
              [0, 1] [0, 0] masks)
   \<and> data (snd (segment two_channel_tiles label_library two_channel_container ''image''
                  ''watershed'' NoInstance Map.empty (Some 1) (Some 1) (Some 1) None))
        ''segmented_watershed'' = Some (A3 [[[2, 6]]])
   \<and> data (snd (segment two_channel_tiles label_library two_channel_container ''image''
                  ''watershed'' NoInstance Map.empty None (Some 1) (Some 1) None))
        ''segmented_watershed'' = Some (A3 [[[1, 5]]])"
proof -
  let ?crops = "[[[[1]], [[2]]], [[[3]], [[4::int]]]]"
  have m: "select_model ''watershed'' NoInstance = Inr (SegmentationModelWatershed NoInstance)"
    by (simp add: select_model_def new_SegmentationModelWatershed_def)
  have t: "two_channel_tiles two_channel_container (Some 1) (Some 1) ''image''
             = Inr (?crops, [0, 1], [0, 0])"
    by (simp add: two_channel_tiles_def)
  have lb: "label_bits label_library = 32" by (simp add: label_library_def)
  have h1: "Some (1::int) = Some 1
            \<and> (\<forall>x\<in>set ?crops. - int (length x) \<le> 1 \<and> 1 < int (length x))" by simp
  have h2: "(None :: int option) = None \<and> ?crops \<noteq> []
            \<and> (\<forall>x\<in>set ?crops. length x = length (hd ?crops))"
    by simp
  from segment_channel_selection[where crop_eq = two_channel_tiles
      and img = two_channel_container and xs = "Some 1" and ys = "Some 1"
      and img_id = "''image''" and channel_idx = "Some 1" and k = 1 and lib = label_library
      and model_kwargs = Map.empty and key_added = None,
      OF m t, THEN conjunct1, THEN mp, OF h1]
  have a: "segment two_channel_tiles label_library two_channel_container ''image'' ''watershed''
      NoInstance Map.empty (Some 1) (Some 1) (Some 1) None
     = (case call_each
               (\<lambda>arr. model_segment label_library (SegmentationModelWatershed NoInstance) arr
                        Map.empty)
               [A2 [[2]], A2 [[4]]] of
          Inl e \<Rightarrow> (Inl e, two_channel_container)
        | Inr masks \<Rightarrow>
            segment_merge (label_bits label_library) two_channel_container ''watershed'' None
              [0, 1] [0, 0] masks)"
    by (simp add: lb del: call_each.simps)
  from segment_channel_selection[where crop_eq = two_channel_tiles
      and img = two_channel_container and xs = "Some 1" and ys = "Some 1"
      and img_id = "''image''" and channel_idx = None and k = 0 and lib = label_library
      and model_kwargs = Map.empty and key_added = None,
      OF m t, THEN conjunct2, THEN mp, OF h2]
  have b: "segment two_channel_tiles label_library two_channel_container ''image'' ''watershed''
      NoInstance Map.empty None (Some 1) (Some 1) None
     = (case call_each
               (\<lambda>arr. model_segment label_library (SegmentationModelWatershed NoInstance) arr
                        Map.empty)
               [A3 [[[1]], [[2]]], A3 [[[3]], [[4]]]] of
          Inl e \<Rightarrow> (Inl e, two_channel_container)
        | Inr masks \<Rightarrow>
            segment_merge (label_bits label_library) two_channel_container ''watershed'' None
              [0, 1] [0, 0] masks)"
    by (simp add: lb del: call_each.simps)
  have ce1: "call_each
               (\<lambda>arr. model_segment label_library (SegmentationModelWatershed NoInstance) arr
                        Map.empty)
               [A2 [[2]], A2 [[4]]] = Inr [[[2]], [[4]]]"
    by (simp add: watershed_segment_def label_library_def rows_of_def Let_def)
  have ce2: "call_each
               (\<lambda>arr. model_segment label_library (SegmentationModelWatershed NoInstance) arr
                        Map.empty)
               [A3 [[[1]], [[2]]], A3 [[[3]], [[4]]]] = Inr [[[1], [2]], [[3], [4]]]"
    by (simp add: watershed_segment_def label_library_def rows_of_def Let_def)
  have sm1: "data (snd (segment_merge 32 two_channel_container ''watershed'' None [0, 1] [0, 0]
                          [[[2]], [[4]]])) ''segmented_watershed'' = Some (A3 [[[2, 6]]])"
    by code_simp
  have sm2: "data (snd (segment_merge 32 two_channel_container ''watershed'' None [0, 1] [0, 0]
                          [[[1], [2]], [[3], [4]]])) ''segmented_watershed'' = Some (A3 [[[1, 5]]])"
    by code_simp
  have c: "data (snd (segment two_channel_tiles label_library two_channel_container ''image''
                  ''watershed'' NoInstance Map.empty (Some 1) (Some 1) (Some 1) None))
        ''segmented_watershed'' = Some (A3 [[[2, 6]]])"
    unfolding a ce1 using sm1 by (simp add: lb)
  have d: "data (snd (segment two_channel_tiles label_library two_channel_container ''image''
                  ''watershed'' NoInstance Map.empty None (Some 1) (Some 1) None))
        ''segmented_watershed'' = Some (A3 [[[1, 5]]])"
    unfolding b ce2 using sm2 by (simp add: lb)
  from a b c d show ?thesis by (intro conjI)
qed

section \<open>\<open>extract\<close>: the input object is left as it was\<close>

lemma set_obs_frame:
  "length (set_obs st tmp k col) = length st \<and> (\<forall>a. a \<noteq> tmp \<longrightarrow> set_obs st tmp k col ! a = st ! a)"
  by (simp add: set_obs_def)

lemma write_frame_frame:
  "length (write_frame st tmp pre cols) = length st
   \<and> (\<forall>a. a \<noteq> tmp \<longrightarrow> write_frame st tmp pre cols ! a = st ! a)"
proof (induction cols arbitrary: st)
  case Nil
  show ?case by simp
next
  case (Cons c cols)
  obtain col vals where c: "c = (col, vals)" by (cases c)
  from Cons.IH[of "set_obs st tmp (pre @ col) vals"] set_obs_frame[of st tmp "pre @ col" vals]
  show ?case unfolding c by simp
qed

lemma write_matrix_frame:
  "length (write_matrix st tmp pre j cols) = length st
   \<and> (\<forall>a. a \<noteq> tmp \<longrightarrow> write_matrix st tmp pre j cols ! a = st ! a)"
proof (induction cols arbitrary: st j)
  case Nil
  show ?case by simp
next
  case (Cons vals cols)
  from Cons.IH[of "set_obs st tmp (pre @ str_nat j) vals" "Suc j"]
    set_obs_frame[of st tmp "pre @ str_nat j" vals]
  show ?case by simp
qed

lemma move_entries_frame:
  "move_entries st adata tmp keys pres = (e, st') \<Longrightarrow>
   length st' = length st \<and> (\<forall>a. a \<noteq> tmp \<longrightarrow> st' ! a = st ! a)"
proof (induction st adata tmp keys pres arbitrary: e st' rule: move_entries.induct)
  case (1 st adata tmp cur_obsm_key keys pre pres)
  show ?case
  proof (cases "obsm (st ! adata) cur_obsm_key")
    case None
    with "1.prems" show ?thesis by simp
  next
    case (Some entry)
    show ?thesis
    proof (cases entry)
      case (DataFrame cols)
      with Some "1.prems"
      have m: "move_entries (write_frame st tmp pre cols) adata tmp keys pres = (e, st')" by simp
      from "1.IH"(1)[OF Some DataFrame m] write_frame_frame[of st tmp pre cols]
      show ?thesis by simp
    next
      case (Matrix cols)
      with Some "1.prems"
      have m: "move_entries (write_matrix st tmp pre 0 cols) adata tmp keys pres = (e, st')"
        by simp
      from "1.IH"(2)[OF Some Matrix m] write_matrix_frame[of st tmp pre 0 cols]
      show ?thesis by simp
    qed
  qed
qed simp_all

text \<open>
  Claim C10: \<open>extract\<close> does not change the object it is given, nor any other object that
  existed before the call: the store after the call, cut to its length before the call, is
  the store before the call, also when the call raises. The object returned is a new one,
  at an address that was not in use.
\<close>

theorem extract_leaves_input:
  assumes "adata < length st"
    and "extract_adata st adata obsm_key prefix = (r, st')"
  shows "st' ! adata = st ! adata \<and> take (length st) st' = st
         \<and> (r = Inr tmp \<longrightarrow> tmp = length st \<and> tmp < length st')"
proof (cases "prefixes (as_list obsm_key) prefix")
  case (Inl e)
  with assms(2) have "st' = st" "r = Inl e" by (simp_all add: extract_adata_def Let_def)
  then show ?thesis by simp
next
  case (Inr pres)
  obtain e st2 where m: "move_entries (st @ [st ! adata]) adata (length st) (as_list obsm_key) pres
                          = (e, st2)" by (cases "move_entries (st @ [st ! adata]) adata (length st) (as_list obsm_key) pres")
  from move_entries_frame[OF m]
  have len: "length st2 = Suc (length st)"
    and same: "\<And>a. a \<noteq> length st \<Longrightarrow> st2 ! a = (st @ [st ! adata]) ! a" by simp_all
  from assms(2) Inr m have st': "st' = st2"
    and r: "r = (case e of Some x \<Rightarrow> Inl x | None \<Rightarrow> Inr (length st))"
    by (simp_all add: extract_adata_def Let_def copy_def split: option.splits)
  have old: "st2 ! a = st ! a" if "a < length st" for a
    using same[of a] that by (simp add: nth_append)
  have "take (length st) st2 = st"
    by (rule nth_equalityI) (simp_all add: len old)
  moreover have "r = Inr tmp \<longrightarrow> tmp = length st \<and> tmp < length st2"
    using r len by (cases e) auto
  ultimately show ?thesis using old[OF assms(1)] st' by simp
qed

lemma str_nat_0_1: "str_nat 0 = ''0''" "str_nat (Suc 0) = ''1''"
  by code_simp+

theorem extract_leaves_input_witness:
  "fst (extract_adata [small_adata] 0 (Str ''img_features'') (Some (Str ''f''))) = Inr 1
   \<and> snd (extract_adata [small_adata] 0 (Str ''img_features'') (Some (Str ''f''))) ! 0
       = small_adata
   \<and> obs (snd (extract_adata [small_adata] 0 (Str ''img_features'') (Some (Str ''f''))) ! 1)
       = [(''cluster'', [1, 2]), (''f_0'', [5, 6]), (''f_1'', [7, 8])]"
proof -
  let ?call = "extract_adata [small_adata] 0 (Str ''img_features'') (Some (Str ''f''))"
  have h1: "(0::nat) < length [small_adata]" by simp
  have h2: "?call = (fst ?call, snd ?call)" by simp
  have r: "fst ?call = Inr 1"
    by (simp add: extract_adata_def prefixes_def as_list_def copy_def small_adata_def)
  from extract_leaves_input[OF h1 h2, of 1]
  have a: "snd ?call ! 0 = small_adata" by simp
  have b: "obs (snd ?call ! 1) = [(''cluster'', [1, 2]), (''f_0'', [5, 6]), (''f_1'', [7, 8])]"
    by (simp add: extract_adata_def prefixes_def as_list_def copy_def small_adata_def
        set_obs_def set_column_def str_nat_0_1)
  from r a b show ?thesis by simp
qed

section \<open>\<open>segment\<close> on the scenario of two tiles\<close>

lemma scenario_tiles: "two_tiles scenario_container (Some 10) (Some 10) ''image''
            = Inr ([[tile1_mask], [tile2_mask]], [0, 10], [0, 0])"
  by (simp add: two_tiles_def scenario_container_def side_by_side_def tile1_mask_def tile2_mask_def)

lemma scenario_relabel:
  "relabel 32 0 [tile1_mask, tile2_mask] = Inr ([[tile1_mask], [tile2_relabelled]], 5)"
  by code_simp

lemma scenario_uncrop:
  "uncrop_img [[tile1_mask], [tile2_relabelled]] [0, 10] [0, 0] (10, 20) ''mask''
     = A3 [side_by_side tile1_mask tile2_relabelled]"
  by code_simp



lemma lower_watershed: "lower ''watershed'' = ''watershed''"
  by code_simp

lemma scenario_segment_tiles:
  "segment_tiles (\<lambda>arr. model_segment label_library (SegmentationModelWatershed NoInstance) arr kw)
      (Index 0) [[tile1_mask], [tile2_mask]]
     = Inr [tile1_mask, tile2_mask]"
  by (simp add: isel_channels_def watershed_segment_def label_library_def rows_of_def Let_def)

lemma scenario_segment:
  "segment two_tiles label_library scenario_container ''image'' ''watershed'' NoInstance
      model_kwargs (Some 0) (Some 10) (Some 10) None
     = (Inr (), scenario_segmented)"
proof -
  have m: "select_model ''watershed'' NoInstance = Inr (SegmentationModelWatershed NoInstance)"
    by (simp add: select_model_def new_SegmentationModelWatershed_def)
  have c: "channel_slice_of (Some 0) [[tile1_mask], [tile2_mask]] = Inr (Index 0)"
    by (simp add: channel_slice_of_def)
  have sh: "shape scenario_container = (10, 20)" by (simp add: scenario_container_def)
  have lb: "label_bits label_library = 32" by (simp add: label_library_def)
  show ?thesis
    unfolding segment_def segment_merge_def scenario_segmented_def
    by (simp add: m scenario_tiles c scenario_segment_tiles scenario_relabel scenario_uncrop sh
        lb lower_watershed del: segment_tiles.simps relabel.simps model_segment.simps)
qed


section \<open>\<open>segment_crops\<close>: labels, centroids and the container\<close>

lemma crops_by_label_round_example: "crops_by_label round (\<lambda>x y. centre_only label_container x y None None ''image'')
         [[1, 0, 0], [1, 1, 1]] = Inr [(1, 1)]"
  by code_simp

lemma segment_crops_example: "fst (segment_crops centre_only label_container ''image'' ''segmented_watershed'' None None) = Inr [(0, 0)]"
  by code_simp

lemma label_values_sorted_set:
  "label_values (A2 lab) = sorted_list_of_set (set (concat lab) - {0})"
proof -
  have "set (filter (\<lambda>v. v \<noteq> 0) (concat lab)) = set (concat lab) - {0}" by auto
  then show ?thesis
    unfolding label_values_def nd_flat_def
    by (simp add: sorted_list_of_set_sort_remdups[symmetric] del: set_filter set_concat)
qed

lemma enumerate_0_map: "enumerate 0 xs = map (\<lambda>i. (i, xs ! i)) [0..<length xs]"
  by (rule nth_equalityI) (simp_all add: nth_enumerate_eq)

lemma row_hits:
  "map (\<lambda>(r, c, v). (r, c)) (filter (\<lambda>(r, c, v). v = l) (map (Pair r) (enumerate 0 row)))
   = map (Pair r) (filter (\<lambda>c. row ! c = l) [0..<length row])"
  by (simp add: enumerate_0_map filter_map comp_def)

lemma hits_pixels:
  "map (\<lambda>(r, c, v). (r, c)) (filter (\<lambda>(r, c, v). v = l) (indices2 lab)) = pixels_of lab l"
  unfolding indices2_def pixels_of_def
  by (simp add: filter_concat map_concat comp_def enumerate_0_map[of lab] row_hits)

lemma np_where_eq_pixels:
  "np_where_eq (A2 lab) l = (map fst (pixels_of lab l), map snd (pixels_of lab l))"
proof -
  let ?hits = "filter (\<lambda>(r, c, v). v = l) (indices2 lab)"
  have 1: "map (\<lambda>(r, c, v). r) ?hits = map fst (map (\<lambda>(r, c, v). (r, c)) ?hits)"
    by (simp add: comp_def case_prod_beta)
  have 2: "map (\<lambda>(r, c, v). c) ?hits = map snd (map (\<lambda>(r, c, v). (r, c)) ?hits)"
    by (simp add: comp_def case_prod_beta)
  show ?thesis
    unfolding np_where_eq_def by (simp add: Let_def 1 2 hits_pixels del: map_map)
qed

lemma pixels_of_nonempty:
  assumes "l \<in> set (concat lab)" shows "pixels_of lab l \<noteq> []"
proof -
  from assms obtain row where row: "row \<in> set lab" and l: "l \<in> set row" by auto
  from row obtain r where r: "r < length lab" "lab ! r = row" by (auto simp: in_set_conv_nth)
  from l obtain c where c: "c < length row" "row ! c = l" by (auto simp: in_set_conv_nth)
  have "(r, c) \<in> set (pixels_of lab l)"
    unfolding pixels_of_def using r c by auto
  then show ?thesis by auto
qed

lemma py_int_mean: "py_int (Some (mean ns)) = Inr \<lfloor>mean ns\<rfloor>"
proof -
  have "0 \<le> mean ns" unfolding mean_def by simp
  then show ?thesis by (simp add: py_int_def)
qed

lemma crop_centres_means:
  "crop_centres f (map (\<lambda>l. (Some (mean (g l)), Some (mean (h l)))) ls)
   = call_each (\<lambda>l. f \<lfloor>mean (g l)\<rfloor> \<lfloor>mean (h l)\<rfloor>) ls"
proof (induction ls)
  case Nil
  show ?case by simp
next
  case (Cons l ls)
  then show ?case
    by (cases "f \<lfloor>mean (g l)\<rfloor> \<lfloor>mean (h l)\<rfloor>") (simp_all add: py_int_mean)
qed

lemma segment_centres_centroid:
  "segment_centres (A2 lab)
   = map (\<lambda>l. (Some (mean (map fst (pixels_of lab l))), Some (mean (map snd (pixels_of lab l)))))
       (sorted_list_of_set (set (concat lab) - {0}))"
proof -
  have "(np_mean (fst (np_where_eq (A2 lab) l)), np_mean (snd (np_where_eq (A2 lab) l)))
        = (Some (mean (map fst (pixels_of lab l))), Some (mean (map snd (pixels_of lab l))))"
    if "l \<in> set (sorted_list_of_set (set (concat lab) - {0}))" for l
  proof -
    from that have "l \<in> set (concat lab)" by simp
    from pixels_of_nonempty[OF this] show ?thesis
      by (simp add: np_where_eq_pixels np_mean_def mean_def)
  qed
  then show ?thesis
    unfolding segment_centres_def label_values_sorted_set by (intro map_cong refl)
qed

text \<open>
  On a label map of rank two (rows of pixels, no leading axis) \<open>segment_crops\<close> goes
  through the label values other than zero in ascending order and takes one crop for each:
  its \<open>x\<close> is the mean row index and its \<open>y\<close> the mean column index of the pixels of the
  label, each cut down to an integer (the floor), where the crop of the spec has the
  column for \<open>x\<close> and the row for \<open>y\<close>. On the map \<open>[[1, 0, 0], [1, 1, 1]]\<close>, where the
  centroid of label 1 is (3/4, 3/4), the code crops at (0, 0) and rounding to the nearest
  integer gives (1, 1).
\<close>

lemma segment_crops_rank_two:
  assumes "data img segmented_img_id = Some (A2 lab)"
  shows "fst (segment_crops crop img img_id segmented_img_id xs ys)
           = crops_by_label floor (\<lambda>x y. crop img y x xs ys img_id) lab"
  using assms
  by (simp add: segment_crops_def segment_centres_centroid crop_centres_means
      crops_by_label_def centroid_def)

lemma segment_crops_truncates:
  "fst (segment_crops centre_only label_container ''image'' ''segmented_watershed'' None None)
     = Inr [(0, 0)]
   \<and> crops_by_label round (\<lambda>x y. centre_only label_container x y None None ''image'')
        [[1, 0, 0], [1, 1, 1]] = Inr [(1, 1)]"
  using crops_by_label_round_example segment_crops_example by simp

text \<open>
  Claim C6 has every crop centred at the centroid of its label (mean row index, mean column
  index). The label map that \<open>segment\<close> stores has the leading axis \<open>mask\<close>
  (line 237), and \<open>segment_crops\<close> takes the means of the indices along the first two axes
  of the map (lines 272 and 273): on a stored map these are the index of the plane, which
  is 0, and the row, and the column is not read. On the map that \<open>segment\<close> stores in the
  scenario of two tiles, whose labels 1, 2 and 3 are squares with the middle pixels (row 2,
  column 2), (row 7, column 6) and (row 4, column 14), the code asks for the crops at
  \<open>(x, y)\<close> = (0, 2), (0, 7) and (0, 4), where the crops of the spec are centred at
  (2, 2), (6, 7) and (14, 4). The centroids being integers, rounding plays no part in it.
\<close>

theorem segment_crops_stored_map:
  "snd (segment two_tiles label_library scenario_container ''image'' ''watershed'' NoInstance
          Map.empty (Some 0) (Some 10) (Some 10) None) = scenario_segmented
   \<and> data scenario_segmented ''segmented_watershed''
       = Some (A3 [side_by_side tile1_mask tile2_relabelled])
   \<and> fst (segment_crops centre_only scenario_segmented ''image'' ''segmented_watershed'' None None)
       = Inr [(0, 2), (0, 7), (0, 4)]
   \<and> crops_by_label round (\<lambda>x y. centre_only scenario_segmented x y None None ''image'')
        (side_by_side tile1_mask tile2_relabelled) = Inr [(2, 2), (6, 7), (14, 4)]"
proof -
  have a: "snd (segment two_tiles label_library scenario_container ''image'' ''watershed''
                  NoInstance Map.empty (Some 0) (Some 10) (Some 10) None) = scenario_segmented"
    by (simp add: scenario_segment)
  have b: "data scenario_segmented ''segmented_watershed''
             = Some (A3 [side_by_side tile1_mask tile2_relabelled])"
    by (simp add: scenario_segmented_def add_img_def)
  have c: "fst (segment_crops centre_only scenario_segmented ''image'' ''segmented_watershed''
                  None None) = Inr [(0, 2), (0, 7), (0, 4)]"
    by code_simp
  have d: "crops_by_label round (\<lambda>x y. centre_only scenario_segmented x y None None ''image'')
             (side_by_side tile1_mask tile2_relabelled) = Inr [(2, 2), (6, 7), (14, 4)]"
    by code_simp
  from a b c d show ?thesis by (intro conjI)
qed

text \<open>
  Claim C9: a call of \<open>segment_crops\<close> leaves the container as it was, and a second call
  on the container it leaves gives the same result, crops or exception.
\<close>

theorem segment_crops_twice:
  assumes "segment_crops crop img img_id segmented_img_id xs ys = (r, img')"
  shows "img' = img \<and> segment_crops crop img' img_id segmented_img_id xs ys = (r, img')"
  using assms by (auto simp: segment_crops_def split: option.splits)

theorem segment_crops_twice_witness:
  "snd (segment_crops centre_only label_container ''image'' ''segmented_watershed'' None None)
     = label_container
   \<and> segment_crops centre_only
        (snd (segment_crops centre_only label_container ''image'' ''segmented_watershed'' None None))
        ''image'' ''segmented_watershed'' None None
     = segment_crops centre_only label_container ''image'' ''segmented_watershed'' None None
   \<and> fst (segment_crops centre_only label_container ''image'' ''segmented_watershed'' None None)
     = Inr [(0, 0)]"
proof -
  let ?call = "segment_crops centre_only label_container ''image'' ''segmented_watershed'' None None"
  have h: "?call = (fst ?call, snd ?call)" by simp
  from segment_crops_twice[OF h] segment_crops_example show ?thesis by simp
qed

end
